theory Spec2Isabelle
  imports Complex_Main
begin

section \<open>Python values handled by server.py\<close>

text \<open>
  The server moves JSON documents around: the body of an Alpha Vantage response
  (\<^verbatim>\<open>response.json()\<close>), the dictionaries it returns itself
  (\<^verbatim>\<open>{"error": ...}\<close>, \<^verbatim>\<open>report_data\<close>) and what \<^verbatim>\<open>jsonify\<close> sends.
  A Python dict is an association list in insertion order, read with \<open>map_of\<close>;
  a Python str is a \<open>string\<close>; a float is a finite real.
\<close>

datatype json =
    JNull
  | JBool bool
  | JInt int
  | JFloat real
  | JStr string
  | JList "json list"
  | JObj "(string \<times> json) list"

text \<open>
  Exceptions raised by the interpreter while the code runs, one constructor for each
  kind of failing operation the code can reach:
  \<^item> \<open>NotContainer v\<close>: \<^verbatim>\<open>s in v\<close> where \<open>v\<close> is None, a bool or a number (TypeError);
  \<^item> \<open>BadSubscript v\<close>: \<^verbatim>\<open>v['k']\<close> where \<open>v\<close> is no dict (TypeError);
  \<^item> \<open>KeyError k\<close>: \<^verbatim>\<open>d['k']\<close> on a dict without the key;
  \<^item> \<open>NoAttribute v a\<close>: \<^verbatim>\<open>v.lower()\<close>, \<^verbatim>\<open>v.get(...)\<close> on a value without it (AttributeError);
  \<^item> \<open>BadOperands a b\<close>: \<^verbatim>\<open>a + b\<close> where \<open>a\<close> and \<open>b\<close> are not both str (TypeError);
  \<^item> \<open>BadSlice v\<close>: \<^verbatim>\<open>v[:3]\<close> where \<open>v\<close> is neither a list nor a str;
  \<^item> \<open>BadItemAssignment v\<close>: \<^verbatim>\<open>v['k'] = x\<close> where \<open>v\<close> is no dict (TypeError);
  \<^item> \<open>NameError n\<close>: the name \<open>n\<close> is read and was never bound.
\<close>

datatype pyexn =
    NotContainer json
  | BadSubscript json
  | KeyError string
  | NoAttribute json string
  | BadOperands json json
  | BadSlice json
  | BadItemAssignment json
  | NameError string

subsection \<open>Strings\<close>

text \<open>
  \<^verbatim>\<open>str.lower()\<close> and \<^verbatim>\<open>str.upper()\<close> on the ASCII letters; every other character
  is left as it is.
\<close>

definition lower_char :: "char \<Rightarrow> char" where
  "lower_char c =
     (case map_of (zip ''ABCDEFGHIJKLMNOPQRSTUVWXYZ'' ''abcdefghijklmnopqrstuvwxyz'') c of
        Some d \<Rightarrow> d
      | None \<Rightarrow> c)"

definition upper_char :: "char \<Rightarrow> char" where
  "upper_char c =
     (case map_of (zip ''abcdefghijklmnopqrstuvwxyz'' ''ABCDEFGHIJKLMNOPQRSTUVWXYZ'') c of
        Some d \<Rightarrow> d
      | None \<Rightarrow> c)"

definition lower :: "string \<Rightarrow> string" where
  "lower s = map lower_char s"

definition upper :: "string \<Rightarrow> string" where
  "upper s = map upper_char s"

text \<open>\<^verbatim>\<open>s.startswith(p)\<close> and the substring test \<^verbatim>\<open>p in s\<close> on two strings.\<close>

fun starts_with :: "string \<Rightarrow> string \<Rightarrow> bool" where
  "starts_with s [] = True"
| "starts_with [] (p # ps) = False"
| "starts_with (c # cs) (p # ps) = (c = p \<and> starts_with cs ps)"

fun contains :: "string \<Rightarrow> string \<Rightarrow> bool" where
  "contains [] p = (p = [])"
| "contains (c # cs) p = (starts_with (c # cs) p \<or> contains cs p)"

subsection \<open>Dictionaries\<close>

text \<open>
  \<^verbatim>\<open>d[k] = v\<close> on a dict: an existing key keeps its place, a new one goes last.
  \<^verbatim>\<open>d.get(k, default)\<close> gives the default only when the key is missing: a key that is
  present with the value None gives None.
\<close>

fun dict_set :: "(string \<times> 'v) list \<Rightarrow> string \<Rightarrow> 'v \<Rightarrow> (string \<times> 'v) list" where
  "dict_set [] k v = [(k, v)]"
| "dict_set ((k', v') # d) k v =
     (if k' = k then (k, v) # d else (k', v') # dict_set d k v)"

definition dict_get :: "(string \<times> 'v) list \<Rightarrow> string \<Rightarrow> 'v \<Rightarrow> 'v" where
  "dict_get d k dflt = (case map_of d k of Some v \<Rightarrow> v | None \<Rightarrow> dflt)"

subsection \<open>Operators on JSON values\<close>

text \<open>Truth value of a Python object, as \<^verbatim>\<open>not x\<close> and \<^verbatim>\<open>x or y\<close> read it.\<close>

fun truthy :: "json \<Rightarrow> bool" where
  "truthy JNull = False"
| "truthy (JBool b) = b"
| "truthy (JInt n) = (n \<noteq> 0)"
| "truthy (JFloat x) = (x \<noteq> 0)"
| "truthy (JStr s) = (s \<noteq> [])"
| "truthy (JList xs) = (xs \<noteq> [])"
| "truthy (JObj d) = (d \<noteq> [])"

text \<open>
  \<^verbatim>\<open>s in v\<close> for a str \<open>s\<close>: a key of a dict, an element of a list (only an equal str
  compares equal to a str), a substring of a str; anything else raises.
\<close>

fun py_in :: "string \<Rightarrow> json \<Rightarrow> pyexn + bool" where
  "py_in s (JObj d) = Inr (s \<in> set (map fst d))"
| "py_in s (JList xs) = Inr (JStr s \<in> set xs)"
| "py_in s (JStr t) = Inr (contains t s)"
| "py_in s v = Inl (NotContainer v)"

text \<open>\<^verbatim>\<open>v[k]\<close> for a str key \<open>k\<close>.\<close>

fun py_getitem :: "json \<Rightarrow> string \<Rightarrow> pyexn + json" where
  "py_getitem (JObj d) k = (case map_of d k of Some v \<Rightarrow> Inr v | None \<Rightarrow> Inl (KeyError k))"
| "py_getitem v k = Inl (BadSubscript v)"

text \<open>\<^verbatim>\<open>v.get(k, default)\<close>: only a dict has the method.\<close>

fun py_get :: "json \<Rightarrow> string \<Rightarrow> json \<Rightarrow> pyexn + json" where
  "py_get (JObj d) k dflt = Inr (dict_get d k dflt)"
| "py_get v k dflt = Inl (NoAttribute v ''get'')"

text \<open>\<^verbatim>\<open>v.lower()\<close>: only a str has the method.\<close>

fun py_lower :: "json \<Rightarrow> pyexn + string" where
  "py_lower (JStr s) = Inr (lower s)"
| "py_lower v = Inl (NoAttribute v ''lower'')"

text \<open>\<^verbatim>\<open>a + b\<close> where \<open>b\<close> is a str: concatenation when \<open>a\<close> is a str too.\<close>

fun py_add :: "json \<Rightarrow> string \<Rightarrow> pyexn + json" where
  "py_add (JStr a) b = Inr (JStr (a @ b))"
| "py_add v b = Inl (BadOperands v (JStr b))"

text \<open>\<^verbatim>\<open>v[:3]\<close>: the first three elements of a list, the first three characters of a str.\<close>

fun py_slice3 :: "json \<Rightarrow> pyexn + json" where
  "py_slice3 (JList xs) = Inr (JList (take 3 xs))"
| "py_slice3 (JStr s) = Inr (JStr (take 3 s))"
| "py_slice3 v = Inl (BadSlice v)"

text \<open>\<^verbatim>\<open>v[k] = x\<close> for a str key \<open>k\<close>.\<close>

fun py_setitem :: "json \<Rightarrow> string \<Rightarrow> json \<Rightarrow> pyexn + json" where
  "py_setitem (JObj d) k x = Inr (JObj (dict_set d k x))"
| "py_setitem v k x = Inl (BadItemAssignment v)"

text \<open>Sequencing of two steps of which the first may raise.\<close>

definition then_do :: "pyexn + 'a \<Rightarrow> ('a \<Rightarrow> pyexn + 'b) \<Rightarrow> pyexn + 'b" where
  "then_do m f = (case m of Inl e \<Rightarrow> Inl e | Inr x \<Rightarrow> f x)"

section \<open>The process environment and the outside world\<close>

text \<open>
  What one pass through the \<^verbatim>\<open>try\<close> block of \<^verbatim>\<open>fetch_alpha_vantage_data\<close> can get from
  \<^verbatim>\<open>requests.get\<close>, \<^verbatim>\<open>raise_for_status\<close> and \<^verbatim>\<open>response.json()\<close>: an exception of class
  \<^verbatim>\<open>requests.exceptions.RequestException\<close> (time-out, connection error, HTTP status 4xx
  or 5xx), some other \<^verbatim>\<open>Exception\<close>, or the parsed body. Exceptions carry their text.
\<close>

datatype av_outcome =
    RequestException string
  | OtherException string
  | Body json

text \<open>
  The response object of \<^verbatim>\<open>chat.send_message\<close>. Reading the property \<^verbatim>\<open>response.text\<close>
  either gives the text or raises (\<open>Inl\<close>, with the exception's text): the property is
  code of the library, which refuses to give a text for a response that holds no part.
  A candidate's \<^verbatim>\<open>content\<close> is \<open>None\<close> when the object is falsy, otherwise it holds the
  list \<^verbatim>\<open>content.parts\<close>.
\<close>

record gm_response =
  resp_text :: "string + string"
  candidates :: "string list option list"

datatype gm_outcome =
    Raised string
  | Response gm_response

text \<open>
  What happened so far, oldest first: requests sent to Alpha Vantage (with their
  parameters), prompts sent to Gemini, and calls of \<^verbatim>\<open>time.sleep\<close> (in seconds).
\<close>

datatype event =
    Request "(string \<times> string) list"
  | Send string
  | Sleep int

type_synonym world = "event list"

fun is_Request :: "event \<Rightarrow> bool" where
  "is_Request (Request p) = True"
| "is_Request e = False"

fun is_Send :: "event \<Rightarrow> bool" where
  "is_Send (Send p) = True"
| "is_Send e = False"

definition requests_made :: "world \<Rightarrow> nat" where
  "requests_made w = length (filter is_Request w)"

definition prompts_sent :: "world \<Rightarrow> nat" where
  "prompts_sent w = length (filter is_Send w)"

text \<open>
  The environment of the process: the two keys read by \<^verbatim>\<open>os.environ.get\<close> at start-up
  (\<open>None\<close> when the variable is not set), the two providers (what the n-th request, counted
  from 0, results in), and the interpreter's rendering of values as text: \<^verbatim>\<open>str(e)\<close> of an
  exception it raised itself and \<^verbatim>\<open>str(v)\<close> of a value that is not a str. The source fixes
  none of these.
\<close>

record env =
  ALPHA_VANTAGE_API_KEY :: "string option"
  GEMINI_API_KEY :: "string option"
  requests_get :: "nat \<Rightarrow> (string \<times> string) list \<Rightarrow> av_outcome"
  send_message :: "nat \<Rightarrow> string \<Rightarrow> gm_outcome"
  str_exn :: "pyexn \<Rightarrow> string"
  str_value :: "json \<Rightarrow> string"

text \<open>\<^verbatim>\<open>not KEY\<close>: the key is None or the empty string.\<close>

fun key_missing :: "string option \<Rightarrow> bool" where
  "key_missing None = True"
| "key_missing (Some k) = (k = [])"

text \<open>
  Lines 29 to 32, the start-up diagnostic for a key:
  \<^verbatim>\<open>'(not set)' if not KEY else KEY[:4] + '...' + KEY[-4:]\<close>.
\<close>

fun key_diagnostic :: "string option \<Rightarrow> string" where
  "key_diagnostic None = ''(not set)''"
| "key_diagnostic (Some k) =
     (if k = [] then ''(not set)'' else take 4 k @ ''...'' @ drop (length k - 4) k)"

text \<open>An f-string field \<^verbatim>\<open>{v}\<close>: a str is inserted as it is.\<close>

fun fmt :: "env \<Rightarrow> json \<Rightarrow> string" where
  "fmt E (JStr s) = s"
| "fmt E v = str_value E v"

text \<open>The dictionary \<^verbatim>\<open>{"error": v}\<close>.\<close>

definition error_dict :: "json \<Rightarrow> json" where
  "error_dict v = JObj [(''error'', v)]"

section \<open>Retry with exponential backoff\<close>

definition max_retries :: nat where
  "max_retries = 5"

definition initial_delay :: int where
  "initial_delay = 1"

text \<open>
  The delay of attempt \<open>i\<close>, \<^verbatim>\<open>initial_delay * (2 ** i)\<close>: the same expression in both
  clients.
\<close>

definition backoff_delay :: "nat \<Rightarrow> int" where
  "backoff_delay i = initial_delay * 2 ^ i"

text \<open>
  One pass through the body of a \<^verbatim>\<open>for i in range(max_retries)\<close> loop either goes on to
  the next \<open>i\<close> or leaves the function, with a value or with an exception.
\<close>

datatype 'r step =
    Continue world
  | Return 'r world

subsection \<open>fetch_alpha_vantage_data\<close>

text \<open>
  Lines 65 to 77, on the parsed body: \<open>None\<close> stands for the \<^verbatim>\<open>continue\<close> after a rate
  limit, \<open>Some r\<close> for \<^verbatim>\<open>return r\<close>. An exception raised here is caught by
  \<^verbatim>\<open>except Exception\<close> in the caller.
\<close>

definition classify :: "json \<Rightarrow> pyexn + json option" where
  "classify data =
     then_do (py_in ''Error Message'' data) (\<lambda>has_error.
       if has_error then
         then_do (py_getitem data ''Error Message'') (\<lambda>m.
         then_do (py_lower m) (\<lambda>l.
           if contains l ''rate limit'' then Inr None
           else then_do (py_getitem data ''Error Message'') (\<lambda>m'.
                  Inr (Some (error_dict m')))))
       else
         then_do (py_in ''Information'' data) (\<lambda>has_info.
         then_do (if has_info
                  then then_do (py_getitem data ''Information'') (\<lambda>m.
                       then_do (py_lower m) (\<lambda>l. Inr (contains l ''rate limit'')))
                  else Inr False) (\<lambda>info_rate_limit.
           if info_rate_limit then
             then_do (py_getitem data ''Information'') (\<lambda>m. Inr (Some (error_dict m)))
           else
             then_do (py_in ''Note'' data) (\<lambda>has_note.
             then_do (if has_note
                      then then_do (py_getitem data ''Note'') (\<lambda>n.
                             py_in ''Thank you for using Alpha Vantage'' n)
                      else Inr False) (\<lambda>advisory.
               Inr (Some data))))))"

text \<open>
  One attempt: lines 58 to 83, with \<open>i\<close> the loop variable and \<open>params\<close> already
  holding the key. The request is logged whether or not it gets an answer.
\<close>

definition av_attempt ::
  "env \<Rightarrow> (string \<times> string) list \<Rightarrow> nat \<Rightarrow> world \<Rightarrow> json step" where
  "av_attempt E params i w =
     (let w1 = w @ [Request params] in
      case requests_get E (requests_made w) params of
        RequestException t \<Rightarrow> Continue (w1 @ [Sleep (backoff_delay i)])
      | OtherException t \<Rightarrow>
          Return (error_dict (JStr
            (''An unexpected error occurred during Alpha Vantage API call: '' @ t))) w1
      | Body data \<Rightarrow>
          (case classify data of
             Inl e \<Rightarrow>
               Return (error_dict (JStr
                 (''An unexpected error occurred during Alpha Vantage API call: ''
                    @ str_exn E e))) w1
           | Inr None \<Rightarrow> Continue (w1 @ [Sleep (backoff_delay i)])
           | Inr (Some r) \<Rightarrow> Return r w1))"

text \<open>
  The loop, from \<open>i\<close> on. Each pass first stores the key in the caller's dictionary
  (\<^verbatim>\<open>params['apikey'] = ALPHA_VANTAGE_API_KEY\<close>), which stays changed for the next pass.
\<close>

function av_loop ::
  "env \<Rightarrow> string \<Rightarrow> (string \<times> string) list \<Rightarrow> nat \<Rightarrow> world \<Rightarrow> json \<times> world" where
  "av_loop E key params i w =
     (if i < max_retries then
        (let params' = dict_set params ''apikey'' key in
         case av_attempt E params' i w of
           Continue w' \<Rightarrow> av_loop E key params' (Suc i) w'
         | Return r w' \<Rightarrow> (r, w'))
      else
        (error_dict (JStr
           ''Max retries exceeded for Alpha Vantage API call due to rate limits or network issues.''),
         w))"
  by pat_completeness auto
termination
  by (relation "measure (\<lambda>(E, key, params, i, w). max_retries - i)") auto

declare av_loop.simps [simp del]

definition fetch_alpha_vantage_data ::
  "env \<Rightarrow> (string \<times> string) list \<Rightarrow> world \<Rightarrow> json \<times> world" where
  "fetch_alpha_vantage_data E params w =
     (case ALPHA_VANTAGE_API_KEY E of
        None \<Rightarrow>
          (error_dict (JStr ''Alpha Vantage API key is not configured in the server.''), w)
      | Some key \<Rightarrow>
          if key = [] then
            (error_dict (JStr ''Alpha Vantage API key is not configured in the server.''), w)
          else av_loop E key params 0 w)"

subsection \<open>generate_gemini_content\<close>

text \<open>
  Line 125: \<^verbatim>\<open>response.candidates and response.candidates[0].content and
  response.candidates[0].content.parts\<close>, read as a condition.
\<close>

fun has_content :: "gm_response \<Rightarrow> bool" where
  "has_content r =
     (case candidates r of
        [] \<Rightarrow> False
      | c # cs \<Rightarrow> (case c of None \<Rightarrow> False | Some parts \<Rightarrow> parts \<noteq> []))"

text \<open>
  The handler of lines 130 to 137, for an exception with text \<open>t\<close>. In
  \<^verbatim>\<open>A or B and retries > 0\<close> the \<^verbatim>\<open>and\<close> binds tighter: when \<open>A\<close> is false and \<open>B\<close>
  is true the name \<^verbatim>\<open>retries\<close> is read, which nothing in the module binds, and the
  NameError leaves the function.
\<close>

definition gm_handler :: "string \<Rightarrow> nat \<Rightarrow> world \<Rightarrow> (pyexn + json) step" where
  "gm_handler t i w =
     (if contains (lower t) ''quota'' then Continue (w @ [Sleep (backoff_delay i)])
      else if contains (lower t) ''rate limit'' then Return (Inl (NameError ''retries'')) w
      else Return (Inr (error_dict (JStr
             (''An unexpected error occurred during AI content generation: '' @ t)))) w)"

text \<open>
  One attempt: lines 98 to 137. Building the model and the chat and sending the prompt
  are one call of the provider, logged whether or not it gets an answer;
  \<^verbatim>\<open>response.text\<close> is read for the diagnostic line 122 before the check of line 125,
  inside the \<^verbatim>\<open>try\<close>.
\<close>

definition gm_attempt :: "env \<Rightarrow> string \<Rightarrow> nat \<Rightarrow> world \<Rightarrow> (pyexn + json) step" where
  "gm_attempt E prompt_text i w =
     (let w1 = w @ [Send prompt_text] in
      case send_message E (prompts_sent w) prompt_text of
        Raised t \<Rightarrow> gm_handler t i w1
      | Response r \<Rightarrow>
          (case resp_text r of
             Inl t \<Rightarrow> gm_handler t i w1
           | Inr txt \<Rightarrow>
               if has_content r then Return (Inr (JObj [(''success'', JStr txt)])) w1
               else Return (Inr (error_dict (JStr
                      ''Gemini API response was empty or malformed.''))) w1))"

function gm_loop :: "env \<Rightarrow> string \<Rightarrow> nat \<Rightarrow> world \<Rightarrow> (pyexn + json) \<times> world" where
  "gm_loop E prompt_text i w =
     (if i < max_retries then
        (case gm_attempt E prompt_text i w of
           Continue w' \<Rightarrow> gm_loop E prompt_text (Suc i) w'
         | Return r w' \<Rightarrow> (r, w'))
      else
        (Inr (error_dict (JStr
           ''Max retries exceeded for Gemini API call due to rate limits or network issues.'')),
         w))"
  by pat_completeness auto
termination
  by (relation "measure (\<lambda>(E, prompt_text, i, w). max_retries - i)") auto

declare gm_loop.simps [simp del]

definition generate_gemini_content ::
  "env \<Rightarrow> string \<Rightarrow> world \<Rightarrow> (pyexn + json) \<times> world" where
  "generate_gemini_content E prompt_text w =
     (if key_missing (GEMINI_API_KEY E) then
        (Inr (error_dict (JStr ''Gemini API key is not configured in the server.'')), w)
      else gm_loop E prompt_text 0 w)"

section \<open>The consolidated report: get_full_stock_report\<close>

text \<open>What a route returns: \<^verbatim>\<open>jsonify(body), status\<close> (200 when no status is given).\<close>

record response =
  status :: nat
  body :: json

text \<open>\<^verbatim>\<open>re.sub(r'[^a-zA-Z0-9.\-_]', '', ticker)\<close>.\<close>

definition sanitize :: "string \<Rightarrow> string" where
  "sanitize s =
     filter (\<lambda>c. c \<in> set (''abcdefghijklmnopqrstuvwxyz'' @ ''ABCDEFGHIJKLMNOPQRSTUVWXYZ''
                              @ ''0123456789'' @ ''.-_'')) s"

text \<open>Lines 252 to 259: the report before the first sub-call.\<close>

definition initial_report :: "string \<Rightarrow> (string \<times> json) list" where
  "initial_report sanitized_ticker =
     [(''symbol'', JStr sanitized_ticker),
      (''global_quote'', JObj []),
      (''overview'', JObj []),
      (''income_statement'', JList []),
      (''earnings'', JObj []),
      (''error'', JNull)]"

text \<open>
  The branch taken when a sub-call's result has the key \<^verbatim>\<open>'error'\<close>:
  \<^verbatim>\<open>report_data['error'] = report_data.get('error', '') + f"<label>{data['error']}. "\<close>.
  The left operand is evaluated first, then the f-string, then the sum.
\<close>

definition add_error ::
  "env \<Rightarrow> string \<Rightarrow> json \<Rightarrow> (string \<times> json) list \<Rightarrow> pyexn + (string \<times> json) list" where
  "add_error E label data report_data =
     (let old = dict_get report_data ''error'' (JStr []) in
      then_do (py_getitem data ''error'') (\<lambda>e.
      then_do (py_add old (label @ fmt E e @ ''. '')) (\<lambda>s.
        Inr (dict_set report_data ''error'' s))))"

text \<open>The four sections, lines 264 to 291, each on the result of its sub-call.\<close>

definition quote_section ::
  "env \<Rightarrow> json \<Rightarrow> (string \<times> json) list \<Rightarrow> pyexn + (string \<times> json) list" where
  "quote_section E quote_data report_data =
     then_do (py_in ''error'' quote_data) (\<lambda>failed.
       if failed then add_error E ''Quote Error: '' quote_data report_data
       else then_do (py_get quote_data ''Global Quote'' (JObj [])) (\<lambda>q.
              Inr (dict_set report_data ''global_quote'' q)))"

definition overview_section ::
  "env \<Rightarrow> json \<Rightarrow> (string \<times> json) list \<Rightarrow> pyexn + (string \<times> json) list" where
  "overview_section E overview_data report_data =
     then_do (py_in ''error'' overview_data) (\<lambda>failed.
       if failed then add_error E ''Overview Error: '' overview_data report_data
       else Inr (dict_set report_data ''overview'' overview_data))"

definition income_section ::
  "env \<Rightarrow> json \<Rightarrow> (string \<times> json) list \<Rightarrow> pyexn + (string \<times> json) list" where
  "income_section E income_data report_data =
     then_do (py_in ''error'' income_data) (\<lambda>failed.
       if failed then add_error E ''Income Statement Error: '' income_data report_data
       else then_do (py_get income_data ''annualReports'' (JList [])) (\<lambda>a.
            then_do (py_slice3 a) (\<lambda>s.
              Inr (dict_set report_data ''income_statement'' s))))"

definition earnings_section ::
  "env \<Rightarrow> json \<Rightarrow> (string \<times> json) list \<Rightarrow> pyexn + (string \<times> json) list" where
  "earnings_section E earnings_data report_data =
     then_do (py_in ''error'' earnings_data) (\<lambda>failed.
       if failed then add_error E ''Earnings Error: '' earnings_data report_data
       else then_do (py_get earnings_data ''annualEarnings'' (JList [])) (\<lambda>a.
            then_do (py_slice3 a) (\<lambda>s.
            then_do (py_getitem (JObj report_data) ''earnings'') (\<lambda>earnings.
            then_do (py_setitem earnings ''annualReports'' s) (\<lambda>earnings'.
              Inr (dict_set report_data ''earnings'' earnings'))))))"

text \<open>Lines 294 to 301: the check for primary data and the answer.\<close>

definition finish :: "(string \<times> json) list \<Rightarrow> pyexn + response" where
  "finish report_data =
     then_do (py_getitem (JObj report_data) ''global_quote'') (\<lambda>q.
     then_do (if \<not> truthy q
              then then_do (py_getitem (JObj report_data) ''overview'') (\<lambda>ov.
                     Inr (\<not> truthy ov))
              else Inr False) (\<lambda>no_primary_data.
       if no_primary_data then
         (let final_error = dict_get report_data ''error'' (JStr []);
              final_error' =
                (if \<not> truthy final_error
                 then JStr ''Stock ticker not found or no data available from Alpha Vantage.''
                 else final_error)
          in then_do (py_getitem (JObj report_data) ''error'') (\<lambda>err.
               Inr \<lparr>status = 404,
                    body = error_dict (if truthy err then err else final_error')\<rparr>))
       else Inr \<lparr>status = 200, body = JObj report_data\<rparr>))"

definition get_full_stock_report ::
  "env \<Rightarrow> string \<Rightarrow> world \<Rightarrow> (pyexn + response) \<times> world" where
  "get_full_stock_report E ticker w =
     (let sanitized_ticker = upper (sanitize ticker) in
      if sanitized_ticker = [] then
        (Inr \<lparr>status = 400, body = error_dict (JStr ''Invalid ticker symbol provided.'')\<rparr>, w)
      else
        let report_data = initial_report sanitized_ticker;
            (quote_data, w1) =
              fetch_alpha_vantage_data E
                [(''function'', ''GLOBAL_QUOTE''), (''symbol'', sanitized_ticker)] w
        in case quote_section E quote_data report_data of
             Inl e \<Rightarrow> (Inl e, w1)
           | Inr report_data1 \<Rightarrow>
        (let (overview_data, w2) =
              fetch_alpha_vantage_data E
                [(''function'', ''OVERVIEW''), (''symbol'', sanitized_ticker)] w1
         in case overview_section E overview_data report_data1 of
              Inl e \<Rightarrow> (Inl e, w2)
            | Inr report_data2 \<Rightarrow>
        (let (income_data, w3) =
              fetch_alpha_vantage_data E
                [(''function'', ''INCOME_STATEMENT''), (''symbol'', sanitized_ticker)] w2
         in case income_section E income_data report_data2 of
              Inl e \<Rightarrow> (Inl e, w3)
            | Inr report_data3 \<Rightarrow>
        (let (earnings_data, w4) =
              fetch_alpha_vantage_data E
                [(''function'', ''EARNINGS''), (''symbol'', sanitized_ticker)] w3
         in case earnings_section E earnings_data report_data3 of
              Inl e \<Rightarrow> (Inl e, w4)
            | Inr report_data4 \<Rightarrow> (finish report_data4, w4)))))"

section \<open>Stub providers\<close>

text \<open>
  Concrete environments on which the theorems below are instantiated: both keys are
  set, and the providers answer as given.
\<close>

definition stub_env ::
  "(nat \<Rightarrow> (string \<times> string) list \<Rightarrow> av_outcome) \<Rightarrow> (nat \<Rightarrow> string \<Rightarrow> gm_outcome) \<Rightarrow> env" where
  "stub_env av gm =
     \<lparr>ALPHA_VANTAGE_API_KEY = Some ''demo'', GEMINI_API_KEY = Some ''demo'',
      requests_get = av, send_message = gm,
      str_exn = (\<lambda>e. ''<exception>''), str_value = (\<lambda>v. ''<value>'')\<rparr>"

definition error_rate_limited :: "nat \<Rightarrow> (string \<times> string) list \<Rightarrow> av_outcome" where
  "error_rate_limited n p = Body (JObj [(''Error Message'', JStr ''API Rate Limit reached.'')])"

definition invalid_call :: "nat \<Rightarrow> (string \<times> string) list \<Rightarrow> av_outcome" where
  "invalid_call n p = Body (JObj [(''Error Message'', JStr ''Invalid API call.'')])"

definition information_rate_limited :: "nat \<Rightarrow> (string \<times> string) list \<Rightarrow> av_outcome" where
  "information_rate_limited n p =
     Body (JObj [(''Information'', JStr ''Our standard API rate limit is 25 requests per day.'')])"

definition network_down :: "nat \<Rightarrow> (string \<times> string) list \<Rightarrow> av_outcome" where
  "network_down n p = RequestException ''Connection timed out.''"

definition annual :: "string \<Rightarrow> json" where
  "annual year = JObj [(''fiscalDateEnding'', JStr year)]"

text \<open>A provider that answers each of the four functions of the report with data.\<close>

definition healthy :: "nat \<Rightarrow> (string \<times> string) list \<Rightarrow> av_outcome" where
  "healthy n p =
     (if map_of p ''function'' = Some ''GLOBAL_QUOTE'' then
        Body (JObj [(''Global Quote'', JObj [(''01. symbol'', JStr ''IBM'')])])
      else if map_of p ''function'' = Some ''OVERVIEW'' then
        Body (JObj [(''Symbol'', JStr ''IBM'')])
      else if map_of p ''function'' = Some ''INCOME_STATEMENT'' then
        Body (JObj [(''annualReports'',
          JList [annual ''2023'', annual ''2022'', annual ''2021'', annual ''2020'',
                 annual ''2019''])])
      else
        Body (JObj [(''annualEarnings'',
          JList [annual ''2023'', annual ''2022'', annual ''2021'', annual ''2020''])]))"

text \<open>The same provider, except that the earnings request runs into the daily limit.\<close>

definition earnings_limited :: "nat \<Rightarrow> (string \<times> string) list \<Rightarrow> av_outcome" where
  "earnings_limited n p =
     (if map_of p ''function'' = Some ''EARNINGS'' then information_rate_limited n p
      else healthy n p)"

definition gm_rate_limited :: "nat \<Rightarrow> string \<Rightarrow> gm_outcome" where
  "gm_rate_limited n p = Raised ''Rate limit exceeded.''"

definition gm_quota :: "nat \<Rightarrow> string \<Rightarrow> gm_outcome" where
  "gm_quota n p = Raised ''429 Resource has been exhausted (e.g. check quota).''"

text \<open>An empty response: no candidates, and no text to read.\<close>

definition gm_empty :: "nat \<Rightarrow> string \<Rightarrow> gm_outcome" where
  "gm_empty n p =
     Response \<lparr>resp_text = Inl
       ''The response.text quick accessor requires a valid Part, but none were returned.'',
       candidates = []\<rparr>"

definition gm_answer :: "nat \<Rightarrow> string \<Rightarrow> gm_outcome" where
  "gm_answer n p =
     Response \<lparr>resp_text = Inr ''{}'', candidates = [Some [''{}'']]\<rparr>"

text \<open>An environment without keys: one variable is not set, the other is empty.\<close>

definition unconfigured :: env where
  "unconfigured =
     (stub_env healthy gm_answer)\<lparr>ALPHA_VANTAGE_API_KEY := None, GEMINI_API_KEY := Some []\<rparr>"

section \<open>Basic facts\<close>

lemma map_of_Some_key: "map_of d k = Some v \<Longrightarrow> k \<in> fst ` set d"
  by (induction d) (auto split: if_splits)

lemma map_of_None_key: "map_of d k = None \<Longrightarrow> k \<notin> fst ` set d"
  by (induction d) (auto split: if_splits)

lemma dict_set_idem: "dict_set (dict_set d k v) k v = dict_set d k v"
  by (induction d) auto

lemma map_of_dict_set: "map_of (dict_set d k v) k' = (if k' = k then Some v else map_of d k')"
  by (induction d) auto

lemma requests_made_append [simp]:
  "requests_made (w @ [Request p]) = Suc (requests_made w)"
  "requests_made (w @ [Sleep s]) = requests_made w"
  "requests_made (w @ [Send t]) = requests_made w"
  by (simp_all add: requests_made_def)

lemma prompts_sent_append [simp]:
  "prompts_sent (w @ [Send t]) = Suc (prompts_sent w)"
  "prompts_sent (w @ [Sleep s]) = prompts_sent w"
  "prompts_sent (w @ [Request p]) = prompts_sent w"
  by (simp_all add: prompts_sent_def)

lemma lower_rate_limit_examples:
  "contains (lower ''API Rate Limit reached.'') ''rate limit''"
  "\<not> contains (lower ''Invalid API call.'') ''rate limit''"
  "contains (lower ''Our standard API rate limit is 25 requests per day.'') ''rate limit''"
  by (simp_all add: lower_def lower_char_def)

section \<open>The financial-data client\<close>

subsection \<open>Classification of a body\<close>

lemma classify_error_rate_limit:
  "map_of d ''Error Message'' = Some (JStr m) \<Longrightarrow> contains (lower m) ''rate limit''
   \<Longrightarrow> classify (JObj d) = Inr None"
  by (simp add: classify_def then_do_def map_of_Some_key)

lemma classify_error_other:
  "map_of d ''Error Message'' = Some (JStr m) \<Longrightarrow> \<not> contains (lower m) ''rate limit''
   \<Longrightarrow> classify (JObj d) = Inr (Some (error_dict (JStr m)))"
  by (simp add: classify_def then_do_def map_of_Some_key)

lemma classify_information:
  "map_of d ''Error Message'' = None \<Longrightarrow> map_of d ''Information'' = Some (JStr m)
   \<Longrightarrow> contains (lower m) ''rate limit''
   \<Longrightarrow> classify (JObj d) = Inr (Some (error_dict (JStr m)))"
  using map_of_None_key [of d "''Error Message''"] map_of_Some_key [of d "''Information''"]
  by (simp add: classify_def then_do_def)

subsection \<open>One pass and the loop\<close>

lemma av_loop_continue:
  "i < max_retries \<Longrightarrow> av_attempt E (dict_set params ''apikey'' key) i w = Continue w'
   \<Longrightarrow> av_loop E key params i w = av_loop E key (dict_set params ''apikey'' key) (Suc i) w'"
  by (subst av_loop.simps) simp

lemma av_loop_return:
  "i < max_retries \<Longrightarrow> av_attempt E (dict_set params ''apikey'' key) i w = Return r w'
   \<Longrightarrow> av_loop E key params i w = (r, w')"
  by (subst av_loop.simps) simp

lemma av_loop_exhausted:
  "\<not> i < max_retries \<Longrightarrow> av_loop E key params i w =
     (error_dict (JStr
        ''Max retries exceeded for Alpha Vantage API call due to rate limits or network issues.''), w)"
  by (subst av_loop.simps) simp

lemma av_attempt_rate_limit:
  "requests_get E (requests_made w) p = Body (JObj d) \<Longrightarrow>
   map_of d ''Error Message'' = Some (JStr m) \<Longrightarrow> contains (lower m) ''rate limit''
   \<Longrightarrow> av_attempt E p i w = Continue (w @ [Request p, Sleep (backoff_delay i)])"
  by (simp add: av_attempt_def classify_error_rate_limit)

lemma av_attempt_world:
  "(case av_attempt E p a w of
      Continue w' \<Rightarrow> w' = w @ [Request p, Sleep (backoff_delay a)]
    | Return r w' \<Rightarrow> w' = w @ [Request p])"
  by (simp add: av_attempt_def Let_def split: av_outcome.split sum.split option.split)

lemma fetch_first_attempt_return:
  "ALPHA_VANTAGE_API_KEY E = Some key \<Longrightarrow> key \<noteq> [] \<Longrightarrow>
   av_attempt E (dict_set params ''apikey'' key) 0 w = Return r w' \<Longrightarrow>
   fetch_alpha_vantage_data E params w = (r, w')"
  by (simp add: fetch_alpha_vantage_data_def av_loop_return max_retries_def)

text \<open>
  C1. When the key is set and every request is answered by a body whose
  \<^verbatim>\<open>"Error Message"\<close> is a text that contains "rate limit" in any letter case,
  \<^verbatim>\<open>fetch_alpha_vantage_data\<close> sends exactly five requests, sleeps 1, 2, 4, 8 and 16
  seconds after them, and returns the error "Max retries exceeded ...".
\<close>

theorem fetch_rate_limit_exhausts_retries:
  assumes key: "ALPHA_VANTAGE_API_KEY E = Some key" "key \<noteq> []"
    and stub: "\<And>n p. \<exists>d m. requests_get E n p = Body (JObj d)
                 \<and> map_of d ''Error Message'' = Some (JStr m)
                 \<and> contains (lower m) ''rate limit''"
  shows "fetch_alpha_vantage_data E params w =
     (let p = dict_set params ''apikey'' key in
      (error_dict (JStr
         ''Max retries exceeded for Alpha Vantage API call due to rate limits or network issues.''),
       w @ [Request p, Sleep 1, Request p, Sleep 2, Request p, Sleep 4,
            Request p, Sleep 8, Request p, Sleep 16]))"
proof -
  define p where "p = dict_set params ''apikey'' key"
  have step: "av_attempt E p i v = Continue (v @ [Request p, Sleep (backoff_delay i)])" for i v
    using stub [of "requests_made v" p] by (auto simp: av_attempt_rate_limit)
  have loop: "i < max_retries \<Longrightarrow>
      av_loop E key q i v = av_loop E key p (Suc i) (v @ [Request p, Sleep (backoff_delay i)])"
    if "dict_set q ''apikey'' key = p" for i v q
    using that step [of i v] by (simp add: av_loop_continue)
  have p_idem: "dict_set p ''apikey'' key = p"
    by (simp add: p_def dict_set_idem)
  have "av_loop E key params 0 w =
        av_loop E key p 5 (w @ [Request p, Sleep 1, Request p, Sleep 2, Request p, Sleep 4,
           Request p, Sleep 8, Request p, Sleep 16])"
    using p_def p_idem
    by (simp add: loop max_retries_def backoff_delay_def initial_delay_def eval_nat_numeral)
  then show ?thesis
    using key
    by (simp add: fetch_alpha_vantage_data_def av_loop_exhausted max_retries_def p_def Let_def)
qed

theorem fetch_rate_limit_exhausts_retries_witness:
  "fetch_alpha_vantage_data (stub_env error_rate_limited gm_quota)
      [(''function'', ''OVERVIEW''), (''symbol'', ''IBM'')] [] =
     (JObj [(''error'', JStr
         ''Max retries exceeded for Alpha Vantage API call due to rate limits or network issues.'')],
      [Request [(''function'', ''OVERVIEW''), (''symbol'', ''IBM''), (''apikey'', ''demo'')],
       Sleep 1,
       Request [(''function'', ''OVERVIEW''), (''symbol'', ''IBM''), (''apikey'', ''demo'')],
       Sleep 2,
       Request [(''function'', ''OVERVIEW''), (''symbol'', ''IBM''), (''apikey'', ''demo'')],
       Sleep 4,
       Request [(''function'', ''OVERVIEW''), (''symbol'', ''IBM''), (''apikey'', ''demo'')],
       Sleep 8,
       Request [(''function'', ''OVERVIEW''), (''symbol'', ''IBM''), (''apikey'', ''demo'')],
       Sleep 16])"
proof -
  have key: "ALPHA_VANTAGE_API_KEY (stub_env error_rate_limited gm_quota) = Some ''demo''"
    and nonempty: "''demo'' \<noteq> []"
    by (simp_all add: stub_env_def)
  have stub: "\<exists>d m. requests_get (stub_env error_rate_limited gm_quota) n p = Body (JObj d)
                 \<and> map_of d ''Error Message'' = Some (JStr m)
                 \<and> contains (lower m) ''rate limit''" for n p
    using lower_rate_limit_examples(1) by (simp add: stub_env_def error_rate_limited_def)
  show ?thesis
    using fetch_rate_limit_exhausts_retries [OF key nonempty stub,
        of "[(''function'', ''OVERVIEW''), (''symbol'', ''IBM'')]" "[]"]
    by (simp add: error_dict_def Let_def)
qed

text \<open>
  C6. When the key is set and the first request is answered by a body whose
  \<^verbatim>\<open>"Error Message"\<close> is a text that does not contain "rate limit",
  \<^verbatim>\<open>fetch_alpha_vantage_data\<close> returns \<^verbatim>\<open>{"error": <that text>}\<close> after this one
  request, without sleeping.
\<close>

theorem fetch_provider_error_no_retry:
  assumes "ALPHA_VANTAGE_API_KEY E = Some key" and "key \<noteq> []"
    and "requests_get E (requests_made w) (dict_set params ''apikey'' key) = Body (JObj d)"
    and "map_of d ''Error Message'' = Some (JStr m)"
    and "\<not> contains (lower m) ''rate limit''"
  shows "fetch_alpha_vantage_data E params w =
           (error_dict (JStr m), w @ [Request (dict_set params ''apikey'' key)])"
proof -
  have "av_attempt E (dict_set params ''apikey'' key) 0 w =
          Return (error_dict (JStr m)) (w @ [Request (dict_set params ''apikey'' key)])"
    using assms(3-5) by (simp add: av_attempt_def classify_error_other)
  with assms(1,2) show ?thesis
    by (rule fetch_first_attempt_return)
qed

theorem fetch_provider_error_no_retry_witness:
  "fetch_alpha_vantage_data (stub_env invalid_call gm_quota)
      [(''function'', ''OVERVIEW''), (''symbol'', ''IBM'')] [] =
     (JObj [(''error'', JStr ''Invalid API call.'')],
      [Request [(''function'', ''OVERVIEW''), (''symbol'', ''IBM''), (''apikey'', ''demo'')]])"
proof -
  have key: "ALPHA_VANTAGE_API_KEY (stub_env invalid_call gm_quota) = Some ''demo''"
    and nonempty: "''demo'' \<noteq> []"
    by (simp_all add: stub_env_def)
  have answer: "requests_get (stub_env invalid_call gm_quota) (requests_made [])
        (dict_set [(''function'', ''OVERVIEW''), (''symbol'', ''IBM'')] ''apikey'' ''demo'')
      = Body (JObj [(''Error Message'', JStr ''Invalid API call.'')])"
    by (simp add: stub_env_def invalid_call_def)
  have field: "map_of [(''Error Message'', JStr ''Invalid API call.'')] ''Error Message''
      = Some (JStr ''Invalid API call.'')"
    by simp
  show ?thesis
    using fetch_provider_error_no_retry [OF key nonempty answer field
        lower_rate_limit_examples(2)]
    by (simp add: error_dict_def)
qed

text \<open>
  C7. When the key is set and the first request is answered by a body without
  \<^verbatim>\<open>"Error Message"\<close> whose \<^verbatim>\<open>"Information"\<close> is a text that contains "rate limit",
  \<^verbatim>\<open>fetch_alpha_vantage_data\<close> returns \<^verbatim>\<open>{"error": <that text>}\<close> after this one
  request, without sleeping and without a second request.
\<close>

theorem fetch_information_rate_limit_no_retry:
  assumes "ALPHA_VANTAGE_API_KEY E = Some key" and "key \<noteq> []"
    and "requests_get E (requests_made w) (dict_set params ''apikey'' key) = Body (JObj d)"
    and "map_of d ''Error Message'' = None"
    and "map_of d ''Information'' = Some (JStr m)"
    and "contains (lower m) ''rate limit''"
  shows "fetch_alpha_vantage_data E params w =
           (error_dict (JStr m), w @ [Request (dict_set params ''apikey'' key)])"
proof -
  have "av_attempt E (dict_set params ''apikey'' key) 0 w =
          Return (error_dict (JStr m)) (w @ [Request (dict_set params ''apikey'' key)])"
    using assms(3-6) by (simp add: av_attempt_def classify_information)
  with assms(1,2) show ?thesis
    by (rule fetch_first_attempt_return)
qed

theorem fetch_information_rate_limit_no_retry_witness:
  "fetch_alpha_vantage_data (stub_env information_rate_limited gm_quota)
      [(''function'', ''OVERVIEW''), (''symbol'', ''IBM'')] [] =
     (JObj [(''error'', JStr ''Our standard API rate limit is 25 requests per day.'')],
      [Request [(''function'', ''OVERVIEW''), (''symbol'', ''IBM''), (''apikey'', ''demo'')]])"
proof -
  have key: "ALPHA_VANTAGE_API_KEY (stub_env information_rate_limited gm_quota) = Some ''demo''"
    and nonempty: "''demo'' \<noteq> []"
    by (simp_all add: stub_env_def)
  have answer: "requests_get (stub_env information_rate_limited gm_quota) (requests_made [])
        (dict_set [(''function'', ''OVERVIEW''), (''symbol'', ''IBM'')] ''apikey'' ''demo'')
      = Body (JObj [(''Information'',
          JStr ''Our standard API rate limit is 25 requests per day.'')])"
    by (simp add: stub_env_def information_rate_limited_def)
  have no_error: "map_of [(''Information'',
          JStr ''Our standard API rate limit is 25 requests per day.'')] ''Error Message'' = None"
    by simp
  have field: "map_of [(''Information'',
          JStr ''Our standard API rate limit is 25 requests per day.'')] ''Information''
      = Some (JStr ''Our standard API rate limit is 25 requests per day.'')"
    by simp
  show ?thesis
    using fetch_information_rate_limit_no_retry [OF key nonempty answer no_error field
        lower_rate_limit_examples(3)]
    by (simp add: error_dict_def)
qed

section \<open>A missing key\<close>

text \<open>
  C5. A client whose key is not set (None or the empty string) returns its
  "not configured" error at once: the world is unchanged, so no request was sent, no
  prompt was sent and nothing slept. The result is a value, not an exception, and the
  start-up diagnostic of such a key is the text "(not set)".
\<close>

theorem missing_credential_no_call:
  "(key_missing (ALPHA_VANTAGE_API_KEY E) \<longrightarrow>
      fetch_alpha_vantage_data E params w =
        (error_dict (JStr ''Alpha Vantage API key is not configured in the server.''), w)
      \<and> key_diagnostic (ALPHA_VANTAGE_API_KEY E) = ''(not set)'')
   \<and> (key_missing (GEMINI_API_KEY E) \<longrightarrow>
      generate_gemini_content E prompt_text w =
        (Inr (error_dict (JStr ''Gemini API key is not configured in the server.'')), w)
      \<and> key_diagnostic (GEMINI_API_KEY E) = ''(not set)'')"
proof -
  have "key_missing k \<Longrightarrow> key_diagnostic k = ''(not set)''" for k
    by (cases k) simp_all
  then show ?thesis
    by (cases "ALPHA_VANTAGE_API_KEY E")
       (simp_all add: fetch_alpha_vantage_data_def generate_gemini_content_def)
qed

theorem missing_credential_no_call_witness:
  "fetch_alpha_vantage_data unconfigured [(''function'', ''OVERVIEW''), (''symbol'', ''IBM'')] [] =
     (JObj [(''error'', JStr ''Alpha Vantage API key is not configured in the server.'')], [])
   \<and> generate_gemini_content unconfigured ''Analyse IBM.'' [] =
     (Inr (JObj [(''error'', JStr ''Gemini API key is not configured in the server.'')]), [])"
  using missing_credential_no_call [of unconfigured
      "[(''function'', ''OVERVIEW''), (''symbol'', ''IBM'')]" "[]" "''Analyse IBM.''"]
  by (simp add: unconfigured_def stub_env_def error_dict_def)

section \<open>The backoff policy\<close>

lemma backoff_delay_strict_mono: "a < b \<Longrightarrow> backoff_delay a < backoff_delay b"
  by (simp add: backoff_delay_def initial_delay_def)

lemma gm_attempt_world:
  "(case gm_attempt E t a w of
      Continue w' \<Rightarrow> w' = w @ [Send t, Sleep (backoff_delay a)]
    | Return r w' \<Rightarrow> w' = w @ [Send t])"
  by (simp add: gm_attempt_def gm_handler_def Let_def split: gm_outcome.split sum.split)

text \<open>
  C4. For an attempt \<open>a\<close> below \<open>max_retries = 5\<close> the delay is \<open>1 * 2 ^ a\<close>, it is
  smaller than the delay of every later attempt, and it is the time either client
  sleeps when pass \<open>a\<close> of its loop goes on to the next one: such a pass logs its
  request and then this sleep, and a pass that returns does not sleep.
\<close>

theorem backoff_policy:
  assumes "a < max_retries" and "a < b"
  shows "backoff_delay a = 1 * 2 ^ a
       \<and> backoff_delay a < backoff_delay b
       \<and> (case av_attempt E params a w of
            Continue w' \<Rightarrow> w' = w @ [Request params, Sleep (1 * 2 ^ a)]
          | Return r w' \<Rightarrow> w' = w @ [Request params])
       \<and> (case gm_attempt E prompt_text a v of
            Continue v' \<Rightarrow> v' = v @ [Send prompt_text, Sleep (1 * 2 ^ a)]
          | Return r v' \<Rightarrow> v' = v @ [Send prompt_text])"
proof -
  have d: "backoff_delay a = 1 * 2 ^ a"
    by (simp add: backoff_delay_def initial_delay_def)
  show ?thesis
    using av_attempt_world [where E = E and p = params and a = a and w = w]
      gm_attempt_world [where E = E and t = prompt_text and a = a and w = v]
      backoff_delay_strict_mono [OF assms(2)]
    unfolding d by simp
qed

lemma av_attempt_network_down:
  "av_attempt (stub_env network_down gm_quota) p i w = Continue (w @ [Request p, Sleep (backoff_delay i)])"
  by (simp add: av_attempt_def stub_env_def network_down_def)

lemma gm_attempt_quota:
  "gm_attempt (stub_env network_down gm_quota) t i w = Continue (w @ [Send t, Sleep (backoff_delay i)])"
  by (simp add: gm_attempt_def gm_handler_def stub_env_def gm_quota_def lower_def lower_char_def)

theorem backoff_policy_witness:
  "(2::nat) < max_retries \<and> (2::nat) < 3
   \<and> backoff_delay 2 = 4 \<and> backoff_delay 2 < backoff_delay 3
   \<and> av_attempt (stub_env network_down gm_quota) [(''function'', ''OVERVIEW'')] 2 [] =
       Continue [Request [(''function'', ''OVERVIEW'')], Sleep 4]
   \<and> gm_attempt (stub_env network_down gm_quota) ''Analyse IBM.'' 2 [] =
       Continue [Send ''Analyse IBM.'', Sleep 4]"
proof -
  have a: "(2::nat) < max_retries" and b: "(2::nat) < 3"
    by (simp_all add: max_retries_def)
  show ?thesis
    using a b backoff_policy [OF a b, where E = "stub_env network_down gm_quota"
        and params = "[(''function'', ''OVERVIEW'')]" and w = "[]"
        and prompt_text = "''Analyse IBM.''" and v = "[]"]
    by (simp add: av_attempt_network_down gm_attempt_quota)
qed

section \<open>The generative-text client\<close>

lemma gm_loop_continue:
  "i < max_retries \<Longrightarrow> gm_attempt E t i w = Continue w'
   \<Longrightarrow> gm_loop E t i w = gm_loop E t (Suc i) w'"
  by (subst gm_loop.simps) simp

lemma gm_loop_return:
  "i < max_retries \<Longrightarrow> gm_attempt E t i w = Return r w'
   \<Longrightarrow> gm_loop E t i w = (r, w')"
  by (subst gm_loop.simps) simp

lemma gm_loop_exhausted:
  "\<not> i < max_retries \<Longrightarrow> gm_loop E t i w =
     (Inr (error_dict (JStr
        ''Max retries exceeded for Gemini API call due to rate limits or network issues.'')), w)"
  by (subst gm_loop.simps) simp

lemma has_content_iff:
  "has_content r \<longleftrightarrow> (\<exists>parts cs. candidates r = Some parts # cs \<and> parts \<noteq> [])"
  by (auto split: list.splits option.splits)

text \<open>The three branches of the handler.\<close>

lemma gm_handler_quota:
  "contains (lower t) ''quota'' \<Longrightarrow>
   gm_handler t i w = Continue (w @ [Sleep (backoff_delay i)])"
  by (simp add: gm_handler_def)

lemma gm_handler_other:
  "\<not> contains (lower t) ''quota'' \<Longrightarrow> \<not> contains (lower t) ''rate limit'' \<Longrightarrow>
   gm_handler t i w = Return (Inr (error_dict (JStr
       (''An unexpected error occurred during AI content generation: '' @ t)))) w"
  by (simp add: gm_handler_def)

lemma gm_handler_rate_limit:
  "\<not> contains (lower t) ''quota'' \<Longrightarrow> contains (lower t) ''rate limit'' \<Longrightarrow>
   gm_handler t i w = Return (Inl (NameError ''retries'')) w"
  by (simp add: gm_handler_def)

text \<open>
  An exception on the first attempt whose text mentions neither a quota nor a rate
  limit ends the call with the error that carries the text, after one attempt.
\<close>

lemma gemini_other_exception_returns:
  assumes "\<not> key_missing (GEMINI_API_KEY E)"
    and "send_message E (prompts_sent w) prompt_text = Raised t"
    and "\<not> contains (lower t) ''quota''" and "\<not> contains (lower t) ''rate limit''"
  shows "generate_gemini_content E prompt_text w =
           (Inr (error_dict (JStr
              (''An unexpected error occurred during AI content generation: '' @ t))),
            w @ [Send prompt_text])"
proof -
  have "gm_attempt E prompt_text 0 w =
          Return (Inr (error_dict (JStr
              (''An unexpected error occurred during AI content generation: '' @ t))))
            (w @ [Send prompt_text])"
    using assms(2-4) by (simp add: gm_attempt_def gm_handler_other)
  then show ?thesis
    using assms(1) by (simp add: generate_gemini_content_def gm_loop_return max_retries_def)
qed

text \<open>
  An exception on the first attempt whose text mentions a rate limit and no quota
  makes the call raise NameError, whatever the environment.
\<close>

lemma gemini_rate_limit_exception_raises:
  assumes "\<not> key_missing (GEMINI_API_KEY E)"
    and "send_message E (prompts_sent w) prompt_text = Raised t"
    and "\<not> contains (lower t) ''quota''" and "contains (lower t) ''rate limit''"
  shows "generate_gemini_content E prompt_text w =
           (Inl (NameError ''retries''), w @ [Send prompt_text])"
proof -
  have "gm_attempt E prompt_text 0 w =
          Return (Inl (NameError ''retries'')) (w @ [Send prompt_text])"
    using assms(2-4) by (simp add: gm_attempt_def gm_handler_rate_limit)
  then show ?thesis
    using assms(1) by (simp add: generate_gemini_content_def gm_loop_return max_retries_def)
qed

text \<open>
  Exceptions that mention a quota on every attempt: five attempts, a sleep after each,
  then the error "Max retries exceeded ...".
\<close>

lemma gemini_quota_exhausts_retries:
  assumes key: "\<not> key_missing (GEMINI_API_KEY E)"
    and stub: "\<And>n p. \<exists>t. send_message E n p = Raised t \<and> contains (lower t) ''quota''"
  shows "generate_gemini_content E prompt_text w =
     (Inr (error_dict (JStr
         ''Max retries exceeded for Gemini API call due to rate limits or network issues.'')),
      w @ [Send prompt_text, Sleep 1, Send prompt_text, Sleep 2, Send prompt_text, Sleep 4,
           Send prompt_text, Sleep 8, Send prompt_text, Sleep 16])"
proof -
  have step: "gm_attempt E prompt_text i v =
      Continue (v @ [Send prompt_text, Sleep (backoff_delay i)])" for i v
    using stub [of "prompts_sent v" prompt_text]
    by (auto simp: gm_attempt_def gm_handler_quota)
  have loop: "i < max_retries \<Longrightarrow>
      gm_loop E prompt_text i v =
      gm_loop E prompt_text (Suc i) (v @ [Send prompt_text, Sleep (backoff_delay i)])" for i v
    using step [of i v] by (simp add: gm_loop_continue)
  have "gm_loop E prompt_text 0 w =
        gm_loop E prompt_text 5 (w @ [Send prompt_text, Sleep 1, Send prompt_text, Sleep 2,
           Send prompt_text, Sleep 4, Send prompt_text, Sleep 8, Send prompt_text, Sleep 16])"
    by (simp add: loop max_retries_def backoff_delay_def initial_delay_def eval_nat_numeral)
  then show ?thesis
    using key by (simp add: generate_gemini_content_def gm_loop_exhausted max_retries_def)
qed

text \<open>
  C3, at the failing input: the key is set and the provider raises an exception with
  the text "Rate limit exceeded." on the first attempt. The call does not sleep and does
  not try again: it raises NameError for the name \<^verbatim>\<open>retries\<close>.
\<close>

theorem gemini_rate_limit_raises_name_error:
  "generate_gemini_content (stub_env healthy gm_rate_limited) ''Analyse IBM.'' [] =
     (Inl (NameError ''retries''), [Send ''Analyse IBM.''])"
proof -
  have "\<not> contains (lower ''Rate limit exceeded.'') ''quota''"
    and "contains (lower ''Rate limit exceeded.'') ''rate limit''"
    by (simp_all add: lower_def lower_char_def)
  then have "gm_attempt (stub_env healthy gm_rate_limited) ''Analyse IBM.'' 0 [] =
      Return (Inl (NameError ''retries'')) [Send ''Analyse IBM.'']"
    by (simp add: gm_attempt_def gm_handler_rate_limit stub_env_def gm_rate_limited_def)
  then show ?thesis
    by (simp add: generate_gemini_content_def gm_loop_return max_retries_def stub_env_def)
qed

text \<open>
  A response whose text can be read: the call returns after this one attempt,
  \<^verbatim>\<open>{"success": <text>}\<close> when the first candidate has a truthy content with a non-empty
  list of parts, and otherwise the error "Gemini API response was empty or malformed.".
\<close>

lemma gemini_readable_response:
  assumes "\<not> key_missing (GEMINI_API_KEY E)"
    and "send_message E (prompts_sent w) prompt_text = Response r"
    and "resp_text r = Inr txt"
  shows "generate_gemini_content E prompt_text w =
           (Inr (if \<exists>parts cs. candidates r = Some parts # cs \<and> parts \<noteq> []
                 then JObj [(''success'', JStr txt)]
                 else error_dict (JStr ''Gemini API response was empty or malformed.'')),
            w @ [Send prompt_text])"
proof -
  have "gm_attempt E prompt_text 0 w =
          Return (Inr (if has_content r then JObj [(''success'', JStr txt)]
                       else error_dict (JStr ''Gemini API response was empty or malformed.'')))
                 (w @ [Send prompt_text])"
    using assms(2,3) by (simp add: gm_attempt_def del: has_content.simps)
  then have "gm_loop E prompt_text 0 w =
          (Inr (if has_content r then JObj [(''success'', JStr txt)]
                       else error_dict (JStr ''Gemini API response was empty or malformed.'')),
                 w @ [Send prompt_text])"
    by (simp add: gm_loop_return max_retries_def del: has_content.simps)
  then show ?thesis
    using assms(1) unfolding has_content_iff by (simp add: generate_gemini_content_def)
qed

text \<open>
  A response whose text cannot be read: line 122 raises inside the \<^verbatim>\<open>try\<close>, before the
  check of line 125 is reached, and the handler decides. Whatever the candidates are,
  the result is never the error "Gemini API response was empty or malformed.": it is the
  error that carries the exception's text, a NameError, or a sleep and another attempt.
\<close>

lemma gm_attempt_unreadable_text:
  assumes "send_message E (prompts_sent w) prompt_text = Response r"
    and "resp_text r = Inl t"
  shows "gm_attempt E prompt_text i w = gm_handler t i (w @ [Send prompt_text])"
  using assms by (simp add: gm_attempt_def)

lemma gm_handler_never_malformed:
  "gm_handler t i w \<noteq>
     Return (Inr (error_dict (JStr ''Gemini API response was empty or malformed.''))) w'"
  by (simp add: gm_handler_def error_dict_def)

lemma gemini_unreadable_text_skips_check:
  assumes "\<not> key_missing (GEMINI_API_KEY E)"
    and "send_message E (prompts_sent w) prompt_text = Response r"
    and "resp_text r = Inl t"
    and "\<not> contains (lower t) ''quota''" and "\<not> contains (lower t) ''rate limit''"
  shows "generate_gemini_content E prompt_text w =
           (Inr (error_dict (JStr
              (''An unexpected error occurred during AI content generation: '' @ t))),
            w @ [Send prompt_text])"
proof -
  have "gm_attempt E prompt_text 0 w =
          Return (Inr (error_dict (JStr
              (''An unexpected error occurred during AI content generation: '' @ t))))
            (w @ [Send prompt_text])"
    using assms(4,5) by (simp add: gm_attempt_unreadable_text [OF assms(2,3)] gm_handler_other)
  then show ?thesis
    using assms(1) by (simp add: generate_gemini_content_def gm_loop_return max_retries_def)
qed

text \<open>
  C8, at the failing input: the key is set and the provider answers the first attempt
  with a response that has no candidates, whose \<^verbatim>\<open>text\<close> property raises when it is read.
  The diagnostic line 122 reads it before the check of line 125, so the call does not
  return the error "Gemini API response was empty or malformed.": it returns the error
  for an unexpected exception, with the exception's text.
\<close>

theorem gemini_empty_response_not_malformed:
  "generate_gemini_content (stub_env healthy gm_empty) ''Analyse IBM.'' [] =
     (Inr (JObj [(''error'', JStr
        (''An unexpected error occurred during AI content generation: '' @
         ''The response.text quick accessor requires a valid Part, but none were returned.''))]),
      [Send ''Analyse IBM.''])"
proof -
  have key: "\<not> key_missing (GEMINI_API_KEY (stub_env healthy gm_empty))"
    by (simp add: stub_env_def)
  have answer: "send_message (stub_env healthy gm_empty) (prompts_sent []) ''Analyse IBM.'' =
      Response \<lparr>resp_text = Inl
        ''The response.text quick accessor requires a valid Part, but none were returned.'',
        candidates = []\<rparr>"
    by (simp add: stub_env_def gm_empty_def)
  have unreadable: "resp_text \<lparr>resp_text = Inl
        ''The response.text quick accessor requires a valid Part, but none were returned.'',
        candidates = []\<rparr> =
      Inl ''The response.text quick accessor requires a valid Part, but none were returned.''"
    by simp
  have no_quota: "\<not> contains (lower
      ''The response.text quick accessor requires a valid Part, but none were returned.'')
      ''quota''"
    and no_rate_limit: "\<not> contains (lower
      ''The response.text quick accessor requires a valid Part, but none were returned.'')
      ''rate limit''"
    by (simp_all add: lower_def lower_char_def)
  show ?thesis
    using gemini_unreadable_text_skips_check [OF key answer unreadable no_quota no_rate_limit]
    by (simp add: error_dict_def)
qed

text \<open>A response with a part and a readable text is a success.\<close>

lemma gemini_answer_is_success:
  "generate_gemini_content (stub_env healthy gm_answer) ''Analyse IBM.'' [] =
     (Inr (JObj [(''success'', JStr ''{}'')]), [Send ''Analyse IBM.''])"
proof -
  have key: "\<not> key_missing (GEMINI_API_KEY (stub_env healthy gm_answer))"
    by (simp add: stub_env_def)
  have answer: "send_message (stub_env healthy gm_answer) (prompts_sent []) ''Analyse IBM.'' =
      Response \<lparr>resp_text = Inr ''{}'', candidates = [Some [''{}'']]\<rparr>"
    by (simp add: stub_env_def gm_answer_def)
  have readable:
    "resp_text \<lparr>resp_text = Inr ''{}'', candidates = [Some [''{}'']]\<rparr> = Inr ''{}''"
    by simp
  show ?thesis
    using gemini_readable_response [OF key answer readable] by simp
qed

section \<open>The consolidated report\<close>

subsection \<open>The sections\<close>

text \<open>
  As long as the report holds None under \<^verbatim>\<open>'error'\<close>, the branch for a failed
  sub-call raises: \<^verbatim>\<open>report_data.get('error', '')\<close> finds the key and gives None, and
  None plus a str is a TypeError.
\<close>

lemma add_error_raises:
  "map_of rd ''error'' = Some JNull \<Longrightarrow> \<exists>e. add_error E label data rd = Inl e"
  by (cases "py_getitem data ''error''") (simp_all add: add_error_def dict_get_def then_do_def)

lemma add_error_on_dict:
  "map_of rd ''error'' = Some JNull \<Longrightarrow> map_of d ''error'' = Some e \<Longrightarrow>
   add_error E label (JObj d) rd = Inl (BadOperands JNull (JStr (label @ fmt E e @ ''. '')))"
  by (simp add: add_error_def dict_get_def then_do_def)

lemma quote_section_Inr:
  assumes "map_of rd ''error'' = Some JNull" and "quote_section E data rd = Inr rd'"
  shows "py_in ''error'' data = Inr False
       \<and> (\<exists>q. py_get data ''Global Quote'' (JObj []) = Inr q \<and> rd' = dict_set rd ''global_quote'' q)"
proof (cases "py_in ''error'' data")
  case (Inl e)
  with assms(2) show ?thesis by (simp add: quote_section_def then_do_def)
next
  case (Inr failed)
  show ?thesis
  proof (cases failed)
    case True
    with Inr assms(2) add_error_raises [OF assms(1), of E "''Quote Error: ''" data]
    show ?thesis by (auto simp: quote_section_def then_do_def)
  next
    case False
    with Inr assms(2) show ?thesis
      by (auto simp: quote_section_def then_do_def split: sum.splits)
  qed
qed

lemma overview_section_Inr:
  assumes "map_of rd ''error'' = Some JNull" and "overview_section E data rd = Inr rd'"
  shows "py_in ''error'' data = Inr False \<and> rd' = dict_set rd ''overview'' data"
proof (cases "py_in ''error'' data")
  case (Inl e)
  with assms(2) show ?thesis by (simp add: overview_section_def then_do_def)
next
  case (Inr failed)
  show ?thesis
  proof (cases failed)
    case True
    with Inr assms(2) add_error_raises [OF assms(1), of E "''Overview Error: ''" data]
    show ?thesis by (auto simp: overview_section_def then_do_def)
  next
    case False
    with Inr assms(2) show ?thesis
      by (auto simp: overview_section_def then_do_def split: sum.splits)
  qed
qed

lemma income_section_Inr:
  assumes "map_of rd ''error'' = Some JNull" and "income_section E data rd = Inr rd'"
  shows "py_in ''error'' data = Inr False
       \<and> (\<exists>a s. py_get data ''annualReports'' (JList []) = Inr a \<and> py_slice3 a = Inr s
               \<and> rd' = dict_set rd ''income_statement'' s)"
proof (cases "py_in ''error'' data")
  case (Inl e)
  with assms(2) show ?thesis by (simp add: income_section_def then_do_def)
next
  case (Inr failed)
  show ?thesis
  proof (cases failed)
    case True
    with Inr assms(2) add_error_raises [OF assms(1), of E "''Income Statement Error: ''" data]
    show ?thesis by (auto simp: income_section_def then_do_def)
  next
    case False
    with Inr assms(2) show ?thesis
      by (auto simp: income_section_def then_do_def split: sum.splits)
  qed
qed

lemma earnings_section_Inr:
  assumes "map_of rd ''error'' = Some JNull" and "earnings_section E data rd = Inr rd'"
  shows "py_in ''error'' data = Inr False
       \<and> (\<exists>a s e e'. py_get data ''annualEarnings'' (JList []) = Inr a \<and> py_slice3 a = Inr s
               \<and> py_getitem (JObj rd) ''earnings'' = Inr e
               \<and> py_setitem e ''annualReports'' s = Inr e'
               \<and> rd' = dict_set rd ''earnings'' e')"
proof (cases "py_in ''error'' data")
  case (Inl e)
  with assms(2) show ?thesis by (simp add: earnings_section_def then_do_def)
next
  case (Inr failed)
  show ?thesis
  proof (cases failed)
    case True
    with Inr assms(2) add_error_raises [OF assms(1), of E "''Earnings Error: ''" data]
    show ?thesis by (auto simp: earnings_section_def then_do_def)
  next
    case False
    with Inr assms(2) show ?thesis
      by (auto simp: earnings_section_def then_do_def split: sum.splits)
  qed
qed

lemma initial_report_error: "map_of (initial_report t) ''error'' = Some JNull"
  by (simp add: initial_report_def)

lemma finish_200: "finish rd = Inr r \<Longrightarrow> status r = 200 \<Longrightarrow> body r = JObj rd"
  by (auto simp: finish_def then_do_def Let_def split: sum.splits if_splits)

lemma finish_not_200:
  "finish rd = Inr r \<Longrightarrow> status r \<noteq> 200 \<Longrightarrow> map_of rd ''error'' = Some JNull \<Longrightarrow>
   r = \<lparr>status = 404, body = error_dict (JStr
          ''Stock ticker not found or no data available from Alpha Vantage.'')\<rparr>"
  by (auto simp: finish_def then_do_def Let_def dict_get_def split: sum.splits if_splits)

subsection \<open>A run that returns a response\<close>

text \<open>
  A run on a ticker that survives the sanitizer returns a response only if none of the
  four sub-calls failed; the response is then made from the report with the four
  sections stored and None under \<^verbatim>\<open>'error'\<close>.
\<close>

lemma full_report_run:
  assumes run: "get_full_stock_report E ticker w = (Inr r, w')"
    and t: "upper (sanitize ticker) \<noteq> []"
    and q: "fetch_alpha_vantage_data E
              [(''function'', ''GLOBAL_QUOTE''), (''symbol'', upper (sanitize ticker))] w
            = (quote_data, w1)"
    and o: "fetch_alpha_vantage_data E
              [(''function'', ''OVERVIEW''), (''symbol'', upper (sanitize ticker))] w1
            = (overview_data, w2)"
    and i: "fetch_alpha_vantage_data E
              [(''function'', ''INCOME_STATEMENT''), (''symbol'', upper (sanitize ticker))] w2
            = (income_data, w3)"
    and e: "fetch_alpha_vantage_data E
              [(''function'', ''EARNINGS''), (''symbol'', upper (sanitize ticker))] w3
            = (earnings_data, w4)"
  shows "\<exists>rd1 rd2 rd3 rd4.
           quote_section E quote_data (initial_report (upper (sanitize ticker))) = Inr rd1
         \<and> overview_section E overview_data rd1 = Inr rd2
         \<and> income_section E income_data rd2 = Inr rd3
         \<and> earnings_section E earnings_data rd3 = Inr rd4
         \<and> finish rd4 = Inr r \<and> w' = w4"
  using run t
  by (simp add: get_full_stock_report_def Let_def q o i e split: sum.splits)

lemma full_report_shape:
  assumes run: "get_full_stock_report E ticker w = (Inr r, w')"
    and t: "upper (sanitize ticker) \<noteq> []"
    and q: "fetch_alpha_vantage_data E
              [(''function'', ''GLOBAL_QUOTE''), (''symbol'', upper (sanitize ticker))] w
            = (quote_data, w1)"
    and o: "fetch_alpha_vantage_data E
              [(''function'', ''OVERVIEW''), (''symbol'', upper (sanitize ticker))] w1
            = (overview_data, w2)"
    and i: "fetch_alpha_vantage_data E
              [(''function'', ''INCOME_STATEMENT''), (''symbol'', upper (sanitize ticker))] w2
            = (income_data, w3)"
    and e: "fetch_alpha_vantage_data E
              [(''function'', ''EARNINGS''), (''symbol'', upper (sanitize ticker))] w3
            = (earnings_data, w4)"
  shows "\<exists>q a s b u rd.
           py_in ''error'' quote_data = Inr False
         \<and> py_in ''error'' overview_data = Inr False
         \<and> py_in ''error'' income_data = Inr False
         \<and> py_in ''error'' earnings_data = Inr False
         \<and> py_get quote_data ''Global Quote'' (JObj []) = Inr q
         \<and> py_get income_data ''annualReports'' (JList []) = Inr a \<and> py_slice3 a = Inr s
         \<and> py_get earnings_data ''annualEarnings'' (JList []) = Inr b \<and> py_slice3 b = Inr u
         \<and> rd = [(''symbol'', JStr (upper (sanitize ticker))), (''global_quote'', q),
                 (''overview'', overview_data), (''income_statement'', s),
                 (''earnings'', JObj [(''annualReports'', u)]), (''error'', JNull)]
         \<and> finish rd = Inr r"
proof -
  from full_report_run [OF run t q o i e] obtain rd1 rd2 rd3 rd4 where
    s1: "quote_section E quote_data (initial_report (upper (sanitize ticker))) = Inr rd1" and
    s2: "overview_section E overview_data rd1 = Inr rd2" and
    s3: "income_section E income_data rd2 = Inr rd3" and
    s4: "earnings_section E earnings_data rd3 = Inr rd4" and
    fin: "finish rd4 = Inr r"
    by blast
  from quote_section_Inr [OF initial_report_error s1] obtain q where
    q1: "py_in ''error'' quote_data = Inr False"
    and q2: "py_get quote_data ''Global Quote'' (JObj []) = Inr q"
    and rd1: "rd1 = dict_set (initial_report (upper (sanitize ticker))) ''global_quote'' q"
    by blast
  have e1: "map_of rd1 ''error'' = Some JNull"
    by (simp add: rd1 map_of_dict_set initial_report_error)
  from overview_section_Inr [OF e1 s2] have
    o1: "py_in ''error'' overview_data = Inr False"
    and rd2: "rd2 = dict_set rd1 ''overview'' overview_data"
    by blast+
  have e2: "map_of rd2 ''error'' = Some JNull"
    by (simp add: rd2 map_of_dict_set e1)
  from income_section_Inr [OF e2 s3] obtain a s where
    i1: "py_in ''error'' income_data = Inr False"
    and i2: "py_get income_data ''annualReports'' (JList []) = Inr a" "py_slice3 a = Inr s"
    and rd3: "rd3 = dict_set rd2 ''income_statement'' s"
    by blast
  have e3: "map_of rd3 ''error'' = Some JNull"
    by (simp add: rd3 map_of_dict_set e2)
  from earnings_section_Inr [OF e3 s4] obtain b u e0 e' where
    a1: "py_in ''error'' earnings_data = Inr False"
    and a2: "py_get earnings_data ''annualEarnings'' (JList []) = Inr b" "py_slice3 b = Inr u"
    and a3: "py_getitem (JObj rd3) ''earnings'' = Inr e0"
            "py_setitem e0 ''annualReports'' u = Inr e'"
    and rd4: "rd4 = dict_set rd3 ''earnings'' e'"
    by blast
  have "e0 = JObj []"
    using a3(1) by (simp add: rd3 rd2 rd1 initial_report_def)
  with a3(2) have e': "e' = JObj [(''annualReports'', u)]"
    by simp
  have "rd4 = [(''symbol'', JStr (upper (sanitize ticker))), (''global_quote'', q),
                 (''overview'', overview_data), (''income_statement'', s),
                 (''earnings'', JObj [(''annualReports'', u)]), (''error'', JNull)]"
    by (simp add: rd4 rd3 rd2 rd1 e' initial_report_def)
  with fin q1 q2 o1 i1 i2 a1 a2 show ?thesis
    by blast
qed

lemma full_report_400:
  "get_full_stock_report E ticker w = (Inr r, w') \<Longrightarrow> status r \<noteq> 400 \<Longrightarrow>
   upper (sanitize ticker) \<noteq> []"
  by (auto simp: get_full_stock_report_def Let_def)

lemma py_get_of_getitem:
  "py_getitem data k = Inr v \<Longrightarrow> py_get data k dflt = Inr v"
  by (cases data) (auto simp: dict_get_def split: option.splits)

text \<open>
  C9. Let the result of the income-statement sub-call hold a list under
  \<^verbatim>\<open>'annualReports'\<close> and no \<^verbatim>\<open>'error'\<close>. Then lines 280 to 283 store the first three
  entries of that list under \<^verbatim>\<open>'income_statement'\<close>, whatever the report held before;
  and when the route answers with the report (status 200), its \<^verbatim>\<open>'income_statement'\<close>
  is this list of the first three entries.
\<close>

theorem income_statement_keeps_first_three:
  assumes reports: "py_getitem income_data ''annualReports'' = Inr (JList xs)"
    and success: "py_in ''error'' income_data = Inr False"
  shows "income_section E income_data report_data =
           Inr (dict_set report_data ''income_statement'' (JList (take 3 xs)))
       \<and> (get_full_stock_report E ticker w = (Inr r, w') \<and> status r = 200
          \<and> fetch_alpha_vantage_data E
              [(''function'', ''GLOBAL_QUOTE''), (''symbol'', upper (sanitize ticker))] w
            = (quote_data, w1)
          \<and> fetch_alpha_vantage_data E
              [(''function'', ''OVERVIEW''), (''symbol'', upper (sanitize ticker))] w1
            = (overview_data, w2)
          \<and> fetch_alpha_vantage_data E
              [(''function'', ''INCOME_STATEMENT''), (''symbol'', upper (sanitize ticker))] w2
            = (income_data, w3)
          \<longrightarrow> py_getitem (body r) ''income_statement'' = Inr (JList (take 3 xs)))"
proof (intro conjI impI)
  show "income_section E income_data report_data =
           Inr (dict_set report_data ''income_statement'' (JList (take 3 xs)))"
    using success py_get_of_getitem [OF reports]
    by (simp add: income_section_def then_do_def)
next
  assume h: "get_full_stock_report E ticker w = (Inr r, w') \<and> status r = 200
          \<and> fetch_alpha_vantage_data E
              [(''function'', ''GLOBAL_QUOTE''), (''symbol'', upper (sanitize ticker))] w
            = (quote_data, w1)
          \<and> fetch_alpha_vantage_data E
              [(''function'', ''OVERVIEW''), (''symbol'', upper (sanitize ticker))] w1
            = (overview_data, w2)
          \<and> fetch_alpha_vantage_data E
              [(''function'', ''INCOME_STATEMENT''), (''symbol'', upper (sanitize ticker))] w2
            = (income_data, w3)"
  then have run: "get_full_stock_report E ticker w = (Inr r, w')" and ok: "status r = 200"
    and q: "fetch_alpha_vantage_data E
              [(''function'', ''GLOBAL_QUOTE''), (''symbol'', upper (sanitize ticker))] w
            = (quote_data, w1)"
    and o: "fetch_alpha_vantage_data E
              [(''function'', ''OVERVIEW''), (''symbol'', upper (sanitize ticker))] w1
            = (overview_data, w2)"
    and i: "fetch_alpha_vantage_data E
              [(''function'', ''INCOME_STATEMENT''), (''symbol'', upper (sanitize ticker))] w2
            = (income_data, w3)"
    by simp_all
  have t: "upper (sanitize ticker) \<noteq> []"
    using run ok by (auto dest: full_report_400)
  obtain earnings_data w4 where e: "fetch_alpha_vantage_data E
      [(''function'', ''EARNINGS''), (''symbol'', upper (sanitize ticker))] w3 = (earnings_data, w4)"
    by (cases "fetch_alpha_vantage_data E
      [(''function'', ''EARNINGS''), (''symbol'', upper (sanitize ticker))] w3")
  from full_report_shape [OF run t q o i e] obtain q a s u where
    a: "py_get income_data ''annualReports'' (JList []) = Inr a" and s: "py_slice3 a = Inr s"
    and fin: "finish [(''symbol'', JStr (upper (sanitize ticker))), (''global_quote'', q),
                 (''overview'', overview_data), (''income_statement'', s),
                 (''earnings'', JObj [(''annualReports'', u)]), (''error'', JNull)] = Inr r"
    by blast
  have "a = JList xs"
    using py_get_of_getitem [OF reports, of "JList []"] a by simp
  with s have "s = JList (take 3 xs)"
    by simp
  with finish_200 [OF fin ok] show "py_getitem (body r) ''income_statement'' = Inr (JList (take 3 xs))"
    by simp
qed

text \<open>
  The same for the earnings: the first three entries of the list under
  \<^verbatim>\<open>'annualEarnings'\<close> are stored under \<^verbatim>\<open>'annualReports'\<close> inside \<^verbatim>\<open>'earnings'\<close>.
\<close>

lemma earnings_keep_first_three:
  assumes run: "get_full_stock_report E ticker w = (Inr r, w')"
    and ok: "status r = 200"
    and q: "fetch_alpha_vantage_data E
              [(''function'', ''GLOBAL_QUOTE''), (''symbol'', upper (sanitize ticker))] w
            = (quote_data, w1)"
    and o: "fetch_alpha_vantage_data E
              [(''function'', ''OVERVIEW''), (''symbol'', upper (sanitize ticker))] w1
            = (overview_data, w2)"
    and i: "fetch_alpha_vantage_data E
              [(''function'', ''INCOME_STATEMENT''), (''symbol'', upper (sanitize ticker))] w2
            = (income_data, w3)"
    and e: "fetch_alpha_vantage_data E
              [(''function'', ''EARNINGS''), (''symbol'', upper (sanitize ticker))] w3
            = (earnings_data, w4)"
    and earnings: "py_getitem earnings_data ''annualEarnings'' = Inr (JList xs)"
  shows "py_getitem (body r) ''earnings'' = Inr (JObj [(''annualReports'', JList (take 3 xs))])"
proof -
  have t: "upper (sanitize ticker) \<noteq> []"
    using run ok by (auto dest: full_report_400)
  from full_report_shape [OF run t q o i e] obtain q s b u where
    b: "py_get earnings_data ''annualEarnings'' (JList []) = Inr b" and u: "py_slice3 b = Inr u"
    and fin: "finish [(''symbol'', JStr (upper (sanitize ticker))), (''global_quote'', q),
                 (''overview'', overview_data), (''income_statement'', s),
                 (''earnings'', JObj [(''annualReports'', u)]), (''error'', JNull)] = Inr r"
    by blast
  have "b = JList xs"
    using py_get_of_getitem [OF earnings, of "JList []"] b by simp
  with u have "u = JList (take 3 xs)"
    by simp
  with finish_200 [OF fin ok] show ?thesis
    by simp
qed

text \<open>
  A failure that the route reports itself never carries a narrative: its status is
  400 or 404, and with 404 the message is the generic one.
\<close>

lemma full_report_failure_is_generic:
  assumes run: "get_full_stock_report E ticker w = (Inr r, w')" and "status r \<noteq> 200"
  shows "r = \<lparr>status = 400, body = error_dict (JStr ''Invalid ticker symbol provided.'')\<rparr>
       \<or> r = \<lparr>status = 404, body = error_dict (JStr
               ''Stock ticker not found or no data available from Alpha Vantage.'')\<rparr>"
proof (cases "upper (sanitize ticker) = []")
  case True
  with run show ?thesis
    by (auto simp: get_full_stock_report_def Let_def)
next
  case t: False
  obtain quote_data w1 where q: "fetch_alpha_vantage_data E
      [(''function'', ''GLOBAL_QUOTE''), (''symbol'', upper (sanitize ticker))] w = (quote_data, w1)"
    by (cases "fetch_alpha_vantage_data E
      [(''function'', ''GLOBAL_QUOTE''), (''symbol'', upper (sanitize ticker))] w")
  obtain overview_data w2 where o: "fetch_alpha_vantage_data E
      [(''function'', ''OVERVIEW''), (''symbol'', upper (sanitize ticker))] w1 = (overview_data, w2)"
    by (cases "fetch_alpha_vantage_data E
      [(''function'', ''OVERVIEW''), (''symbol'', upper (sanitize ticker))] w1")
  obtain income_data w3 where i: "fetch_alpha_vantage_data E
      [(''function'', ''INCOME_STATEMENT''), (''symbol'', upper (sanitize ticker))] w2 = (income_data, w3)"
    by (cases "fetch_alpha_vantage_data E
      [(''function'', ''INCOME_STATEMENT''), (''symbol'', upper (sanitize ticker))] w2")
  obtain earnings_data w4 where e: "fetch_alpha_vantage_data E
      [(''function'', ''EARNINGS''), (''symbol'', upper (sanitize ticker))] w3 = (earnings_data, w4)"
    by (cases "fetch_alpha_vantage_data E
      [(''function'', ''EARNINGS''), (''symbol'', upper (sanitize ticker))] w3")
  from full_report_shape [OF run t q o i e] obtain q s u where
    fin: "finish [(''symbol'', JStr (upper (sanitize ticker))), (''global_quote'', q),
                 (''overview'', overview_data), (''income_statement'', s),
                 (''earnings'', JObj [(''annualReports'', u)]), (''error'', JNull)] = Inr r"
    by blast
  from finish_not_200 [OF fin assms(2)] show ?thesis
    by simp
qed

text \<open>A failed quote sub-call makes the route raise.\<close>

lemma full_report_quote_failure_raises:
  assumes "upper (sanitize ticker) \<noteq> []"
    and "fetch_alpha_vantage_data E
              [(''function'', ''GLOBAL_QUOTE''), (''symbol'', upper (sanitize ticker))] w
            = (JObj d, w1)"
    and "map_of d ''error'' = Some e"
  shows "get_full_stock_report E ticker w =
           (Inl (BadOperands JNull (JStr (''Quote Error: '' @ fmt E e @ ''. ''))), w1)"
  using assms map_of_Some_key [OF assms(3)]
  by (simp add: get_full_stock_report_def Let_def quote_section_def then_do_def
      add_error_on_dict initial_report_error)

subsection \<open>Runs against the stub providers\<close>

lemma sanitize_ibm: "upper (sanitize ''ibm'') = ''IBM''"
  by (simp add: upper_def sanitize_def upper_char_def)

lemma stub_key:
  "ALPHA_VANTAGE_API_KEY (stub_env av gm) = Some ''demo''" "''demo'' \<noteq> []"
  by (simp_all add: stub_env_def)

lemma classify_plain:
  "classify (JObj [(''Global Quote'', q)]) = Inr (Some (JObj [(''Global Quote'', q)]))"
  "classify (JObj [(''Symbol'', s)]) = Inr (Some (JObj [(''Symbol'', s)]))"
  "classify (JObj [(''annualReports'', a)]) = Inr (Some (JObj [(''annualReports'', a)]))"
  "classify (JObj [(''annualEarnings'', a)]) = Inr (Some (JObj [(''annualEarnings'', a)]))"
  by (simp_all add: classify_def then_do_def)

lemma fetch_healthy:
  "fetch_alpha_vantage_data (stub_env healthy gm)
     [(''function'', ''GLOBAL_QUOTE''), (''symbol'', ''IBM'')] w =
   (JObj [(''Global Quote'', JObj [(''01. symbol'', JStr ''IBM'')])],
    w @ [Request [(''function'', ''GLOBAL_QUOTE''), (''symbol'', ''IBM''), (''apikey'', ''demo'')]])"
  "fetch_alpha_vantage_data (stub_env healthy gm)
     [(''function'', ''OVERVIEW''), (''symbol'', ''IBM'')] w =
   (JObj [(''Symbol'', JStr ''IBM'')],
    w @ [Request [(''function'', ''OVERVIEW''), (''symbol'', ''IBM''), (''apikey'', ''demo'')]])"
  "fetch_alpha_vantage_data (stub_env healthy gm)
     [(''function'', ''INCOME_STATEMENT''), (''symbol'', ''IBM'')] w =
   (JObj [(''annualReports'',
          JList [annual ''2023'', annual ''2022'', annual ''2021'', annual ''2020'',
                 annual ''2019''])],
    w @ [Request [(''function'', ''INCOME_STATEMENT''), (''symbol'', ''IBM''),
                  (''apikey'', ''demo'')]])"
  "fetch_alpha_vantage_data (stub_env healthy gm)
     [(''function'', ''EARNINGS''), (''symbol'', ''IBM'')] w =
   (JObj [(''annualEarnings'',
          JList [annual ''2023'', annual ''2022'', annual ''2021'', annual ''2020''])],
    w @ [Request [(''function'', ''EARNINGS''), (''symbol'', ''IBM''), (''apikey'', ''demo'')]])"
  by (rule fetch_first_attempt_return [OF stub_key],
      simp add: av_attempt_def stub_env_def healthy_def classify_plain)+

lemma fetch_information_rate_limited:
  "fetch_alpha_vantage_data (stub_env information_rate_limited gm) params w =
   (JObj [(''error'', JStr ''Our standard API rate limit is 25 requests per day.'')],
    w @ [Request (dict_set params ''apikey'' ''demo'')])"
proof -
  have "classify (JObj [(''Information'',
            JStr ''Our standard API rate limit is 25 requests per day.'')]) =
        Inr (Some (error_dict (JStr ''Our standard API rate limit is 25 requests per day.'')))"
    using lower_rate_limit_examples(3) by (simp add: classify_information)
  then show ?thesis
    by (intro fetch_first_attempt_return [OF stub_key])
       (simp add: av_attempt_def stub_env_def information_rate_limited_def error_dict_def)
qed

lemma fetch_earnings_limited:
  "fetch_alpha_vantage_data (stub_env earnings_limited gm)
     [(''function'', ''GLOBAL_QUOTE''), (''symbol'', ''IBM'')] w =
   fetch_alpha_vantage_data (stub_env healthy gm)
     [(''function'', ''GLOBAL_QUOTE''), (''symbol'', ''IBM'')] w"
  "fetch_alpha_vantage_data (stub_env earnings_limited gm)
     [(''function'', ''OVERVIEW''), (''symbol'', ''IBM'')] w =
   fetch_alpha_vantage_data (stub_env healthy gm)
     [(''function'', ''OVERVIEW''), (''symbol'', ''IBM'')] w"
  "fetch_alpha_vantage_data (stub_env earnings_limited gm)
     [(''function'', ''INCOME_STATEMENT''), (''symbol'', ''IBM'')] w =
   fetch_alpha_vantage_data (stub_env healthy gm)
     [(''function'', ''INCOME_STATEMENT''), (''symbol'', ''IBM'')] w"
  "fetch_alpha_vantage_data (stub_env earnings_limited gm)
     [(''function'', ''EARNINGS''), (''symbol'', ''IBM'')] w =
   fetch_alpha_vantage_data (stub_env information_rate_limited gm)
     [(''function'', ''EARNINGS''), (''symbol'', ''IBM'')] w"
  unfolding fetch_healthy fetch_information_rate_limited
  by (rule fetch_first_attempt_return [OF stub_key],
      simp add: av_attempt_def stub_env_def earnings_limited_def healthy_def classify_plain
        information_rate_limited_def classify_information lower_rate_limit_examples
        error_dict_def)+

lemmas section_defs = quote_section_def overview_section_def income_section_def
  earnings_section_def add_error_def finish_def initial_report_def then_do_def dict_get_def
  error_dict_def

lemma healthy_run:
  "get_full_stock_report (stub_env healthy gm_answer) ''ibm'' [] =
     (Inr \<lparr>status = 200,
           body = JObj
             [(''symbol'', JStr ''IBM''),
              (''global_quote'', JObj [(''01. symbol'', JStr ''IBM'')]),
              (''overview'', JObj [(''Symbol'', JStr ''IBM'')]),
              (''income_statement'', JList [annual ''2023'', annual ''2022'', annual ''2021'']),
              (''earnings'', JObj [(''annualReports'',
                   JList [annual ''2023'', annual ''2022'', annual ''2021''])]),
              (''error'', JNull)]\<rparr>,
      [Request [(''function'', ''GLOBAL_QUOTE''), (''symbol'', ''IBM''), (''apikey'', ''demo'')],
       Request [(''function'', ''OVERVIEW''), (''symbol'', ''IBM''), (''apikey'', ''demo'')],
       Request [(''function'', ''INCOME_STATEMENT''), (''symbol'', ''IBM''), (''apikey'', ''demo'')],
       Request [(''function'', ''EARNINGS''), (''symbol'', ''IBM''), (''apikey'', ''demo'')]])"
  by (simp add: get_full_stock_report_def Let_def sanitize_ibm fetch_healthy section_defs)

theorem income_statement_keeps_first_three_witness:
  "income_section (stub_env healthy gm_answer)
      (JObj [(''annualReports'',
          JList [annual ''2023'', annual ''2022'', annual ''2021'', annual ''2020'',
                 annual ''2019''])])
      (initial_report ''IBM'') =
     Inr [(''symbol'', JStr ''IBM''), (''global_quote'', JObj []), (''overview'', JObj []),
          (''income_statement'', JList [annual ''2023'', annual ''2022'', annual ''2021'']),
          (''earnings'', JObj []), (''error'', JNull)]
   \<and> (\<exists>r w'. get_full_stock_report (stub_env healthy gm_answer) ''ibm'' [] = (Inr r, w')
          \<and> status r = 200
          \<and> py_getitem (body r) ''income_statement'' =
               Inr (JList [annual ''2023'', annual ''2022'', annual ''2021'']))"
proof -
  define r where "r = \<lparr>status = 200,
           body = JObj
             [(''symbol'', JStr ''IBM''),
              (''global_quote'', JObj [(''01. symbol'', JStr ''IBM'')]),
              (''overview'', JObj [(''Symbol'', JStr ''IBM'')]),
              (''income_statement'', JList [annual ''2023'', annual ''2022'', annual ''2021'']),
              (''earnings'', JObj [(''annualReports'',
                   JList [annual ''2023'', annual ''2022'', annual ''2021''])]),
              (''error'', JNull)]\<rparr>"
  define income_data where "income_data = JObj [(''annualReports'',
          JList [annual ''2023'', annual ''2022'', annual ''2021'', annual ''2020'',
                 annual ''2019''])]"
  have run: "get_full_stock_report (stub_env healthy gm_answer) ''ibm'' [] =
     (Inr r,
      [Request [(''function'', ''GLOBAL_QUOTE''), (''symbol'', ''IBM''), (''apikey'', ''demo'')],
       Request [(''function'', ''OVERVIEW''), (''symbol'', ''IBM''), (''apikey'', ''demo'')],
       Request [(''function'', ''INCOME_STATEMENT''), (''symbol'', ''IBM''), (''apikey'', ''demo'')],
       Request [(''function'', ''EARNINGS''), (''symbol'', ''IBM''), (''apikey'', ''demo'')]])"
    unfolding r_def by (rule healthy_run)
  have ok: "status r = 200"
    by (simp add: r_def)
  have reports: "py_getitem income_data ''annualReports'' =
      Inr (JList [annual ''2023'', annual ''2022'', annual ''2021'', annual ''2020'',
                 annual ''2019''])"
    and success: "py_in ''error'' income_data = Inr False"
    by (simp_all add: income_data_def)
  have q: "fetch_alpha_vantage_data (stub_env healthy gm_answer)
      [(''function'', ''GLOBAL_QUOTE''), (''symbol'', upper (sanitize ''ibm''))] [] =
      (JObj [(''Global Quote'', JObj [(''01. symbol'', JStr ''IBM'')])],
       [Request [(''function'', ''GLOBAL_QUOTE''), (''symbol'', ''IBM''), (''apikey'', ''demo'')]])"
    and o: "fetch_alpha_vantage_data (stub_env healthy gm_answer)
      [(''function'', ''OVERVIEW''), (''symbol'', upper (sanitize ''ibm''))]
      [Request [(''function'', ''GLOBAL_QUOTE''), (''symbol'', ''IBM''), (''apikey'', ''demo'')]] =
      (JObj [(''Symbol'', JStr ''IBM'')],
       [Request [(''function'', ''GLOBAL_QUOTE''), (''symbol'', ''IBM''), (''apikey'', ''demo'')],
        Request [(''function'', ''OVERVIEW''), (''symbol'', ''IBM''), (''apikey'', ''demo'')]])"
    and i: "fetch_alpha_vantage_data (stub_env healthy gm_answer)
      [(''function'', ''INCOME_STATEMENT''), (''symbol'', upper (sanitize ''ibm''))]
      [Request [(''function'', ''GLOBAL_QUOTE''), (''symbol'', ''IBM''), (''apikey'', ''demo'')],
       Request [(''function'', ''OVERVIEW''), (''symbol'', ''IBM''), (''apikey'', ''demo'')]] =
      (income_data,
       [Request [(''function'', ''GLOBAL_QUOTE''), (''symbol'', ''IBM''), (''apikey'', ''demo'')],
        Request [(''function'', ''OVERVIEW''), (''symbol'', ''IBM''), (''apikey'', ''demo'')],
        Request [(''function'', ''INCOME_STATEMENT''), (''symbol'', ''IBM''),
                 (''apikey'', ''demo'')]])"
    by (simp_all add: sanitize_ibm fetch_healthy income_data_def)
  note inst = income_statement_keeps_first_three [OF reports success,
      where E = "stub_env healthy gm_answer" and report_data = "initial_report ''IBM''"
        and ticker = "''ibm''" and w = "[]" and r = r]
  from inst have "income_section (stub_env healthy gm_answer) income_data (initial_report ''IBM'') =
      Inr (dict_set (initial_report ''IBM'') ''income_statement''
             (JList (take 3 [annual ''2023'', annual ''2022'', annual ''2021'', annual ''2020'',
                 annual ''2019''])))"
    by (rule conjunct1)
  moreover from inst run ok q o i have "py_getitem (body r) ''income_statement'' =
      Inr (JList (take 3 [annual ''2023'', annual ''2022'', annual ''2021'', annual ''2020'',
                 annual ''2019'']))"
    by blast
  ultimately show ?thesis
    using run ok by (simp add: income_data_def initial_report_def)
qed

text \<open>
  C2, at the failing input: the key is set and Alpha Vantage answers every request with
  its daily-limit notice under \<^verbatim>\<open>"Information"\<close>, so that the quote sub-call fails (and the
  overview sub-call would). The route does not answer 404 with the narrative: it raises
  TypeError in line 265, after the first sub-call.
\<close>

theorem full_report_narrative_raises:
  "get_full_stock_report (stub_env information_rate_limited gm_answer) ''ibm'' [] =
     (Inl (BadOperands JNull
        (JStr ''Quote Error: Our standard API rate limit is 25 requests per day.. '')),
      [Request [(''function'', ''GLOBAL_QUOTE''), (''symbol'', ''IBM''), (''apikey'', ''demo'')]])"
  by (simp add: get_full_stock_report_def Let_def sanitize_ibm fetch_information_rate_limited
      section_defs)

text \<open>
  C10, at the failing input: the key is set, the quote, overview and income-statement
  requests are answered with data and the earnings request with the daily-limit notice.
  The route does not answer with a report whose earnings section is the empty mapping:
  it raises TypeError in line 289.
\<close>

theorem full_report_earnings_failure_raises:
  "get_full_stock_report (stub_env earnings_limited gm_answer) ''ibm'' [] =
     (Inl (BadOperands JNull
        (JStr ''Earnings Error: Our standard API rate limit is 25 requests per day.. '')),
      [Request [(''function'', ''GLOBAL_QUOTE''), (''symbol'', ''IBM''), (''apikey'', ''demo'')],
       Request [(''function'', ''OVERVIEW''), (''symbol'', ''IBM''), (''apikey'', ''demo'')],
       Request [(''function'', ''INCOME_STATEMENT''), (''symbol'', ''IBM''), (''apikey'', ''demo'')],
       Request [(''function'', ''EARNINGS''), (''symbol'', ''IBM''), (''apikey'', ''demo'')]])"
  by (simp add: get_full_stock_report_def Let_def sanitize_ibm fetch_earnings_limited fetch_healthy
      fetch_information_rate_limited section_defs)

end
